theory Spec2Isabelle
  imports Complex_Main
begin

section \<open>JavaScript values\<close>

text \<open>
  The store and the socket handler are JavaScript: identifiers, bidder tokens and bid
  amounts arrive untyped. The primitive values are modelled; objects, arrays, symbols and
  big integers are not. A finite Number is modelled by the real it denotes (both zeros are
  \<open>Fin 0\<close>), which is exact for the comparisons the code makes.
\<close>

datatype jsnum = NaN | PosInf | NegInf | Fin real

datatype jsval = JUndefined | JNull | JBool bool | JNum jsnum | JStr string

abbreviation num :: "real \<Rightarrow> jsval" where
  "num r \<equiv> JNum (Fin r)"

text \<open>\<open>ToBoolean\<close>: what \<open>!x\<close> and \<open>x && y\<close> test.\<close>

fun ToBoolean :: "jsval \<Rightarrow> bool" where
  "ToBoolean JUndefined = False"
| "ToBoolean JNull = False"
| "ToBoolean (JBool b) = b"
| "ToBoolean (JNum NaN) = False"
| "ToBoolean (JNum (Fin r)) = (r \<noteq> 0)"
| "ToBoolean (JNum PosInf) = True"
| "ToBoolean (JNum NegInf) = True"
| "ToBoolean (JStr s) = (s \<noteq> [])"

text \<open>
  \<open>ToNumber\<close>. The conversion of a string (the runtime's \<open>StringToNumber\<close>: white space,
  decimal, hexadecimal and exponent literals, rounding) is not code of the repository and
  is a parameter of the model.
\<close>

fun ToNumber :: "(string \<Rightarrow> jsnum) \<Rightarrow> jsval \<Rightarrow> jsnum" where
  "ToNumber StringToNumber JUndefined = NaN"
| "ToNumber StringToNumber JNull = Fin 0"
| "ToNumber StringToNumber (JBool b) = (if b then Fin 1 else Fin 0)"
| "ToNumber StringToNumber (JNum n) = n"
| "ToNumber StringToNumber (JStr s) = StringToNumber s"

text \<open>\<open>Number::lessThan\<close>; \<open>None\<close> is the result \<open>undefined\<close> of a comparison with NaN.\<close>

fun Number_lessThan :: "jsnum \<Rightarrow> jsnum \<Rightarrow> bool option" where
  "Number_lessThan NaN y = None"
| "Number_lessThan x NaN = None"
| "Number_lessThan PosInf y = Some False"
| "Number_lessThan NegInf NegInf = Some False"
| "Number_lessThan NegInf y = Some True"
| "Number_lessThan (Fin a) PosInf = Some True"
| "Number_lessThan (Fin a) NegInf = Some False"
| "Number_lessThan (Fin a) (Fin b) = Some (a < b)"

text \<open>
  Strings compare by code units, and a proper prefix is smaller; a \<open>char\<close> is a code unit
  below 256.
\<close>

fun String_lessThan :: "string \<Rightarrow> string \<Rightarrow> bool" where
  "String_lessThan [] [] = False"
| "String_lessThan [] (y # ys) = True"
| "String_lessThan (x # xs) [] = False"
| "String_lessThan (x # xs) (y # ys) =
     (if (of_char x :: nat) < of_char y then True
      else if (of_char y :: nat) < of_char x then False
      else String_lessThan xs ys)"

fun IsLessThan :: "(string \<Rightarrow> jsnum) \<Rightarrow> jsval \<Rightarrow> jsval \<Rightarrow> bool option" where
  "IsLessThan StringToNumber (JStr a) (JStr b) = Some (String_lessThan a b)"
| "IsLessThan StringToNumber x y =
     Number_lessThan (ToNumber StringToNumber x) (ToNumber StringToNumber y)"

text \<open>\<open>a <= b\<close> is false when \<open>b < a\<close> is true or undefined.\<close>

definition js_le :: "(string \<Rightarrow> jsnum) \<Rightarrow> jsval \<Rightarrow> jsval \<Rightarrow> bool" where
  "js_le StringToNumber a b =
     (case IsLessThan StringToNumber b a of Some False \<Rightarrow> True | Some True \<Rightarrow> False | None \<Rightarrow> False)"

text \<open>\<open>a > b\<close> is true only when \<open>b < a\<close> is true.\<close>

definition js_gt :: "(string \<Rightarrow> jsnum) \<Rightarrow> jsval \<Rightarrow> jsval \<Rightarrow> bool" where
  "js_gt StringToNumber a b =
     (case IsLessThan StringToNumber b a of Some True \<Rightarrow> True | Some False \<Rightarrow> False | None \<Rightarrow> False)"

text \<open>\<open>a === b\<close> on primitives: the same value, and NaN equals nothing.\<close>

definition strict_eq :: "jsval \<Rightarrow> jsval \<Rightarrow> bool" where
  "strict_eq a b = (a = b \<and> a \<noteq> JNum NaN)"

section \<open>The auction store\<close>

text \<open>
  The three object shapes of the store nest: the \<open>item\<close> of a successful result has five
  fields, the public view of \<open>getAllItems\<close> adds three, and a stored item adds
  \<open>bidHistory\<close>. They are one record and two extensions, so that every shape keeps the
  source's field names (\<open>id\<close> is \<open>item_id\<close>); a literal lists its fields in the order of
  the declaration.
\<close>

record Bid =
  bid_id :: string
  bidderId :: jsval
  amount :: jsval
  timestamp :: int

record BidItemView =
  item_id :: string
  title :: string
  currentBid :: jsval
  highestBidderId :: jsval
  auctionEndTime :: int

record ItemView = BidItemView +
  description :: string
  imageUrl :: string
  startingPrice :: jsval

record AuctionItem = ItemView +
  bidHistory :: "Bid list"

text \<open>
  A \<open>Mutex\<close> of the async-mutex library (not code of the repository), by its contract as
  far as the store uses it: it is locked or not.
\<close>

datatype Mutex = Mutex (isLocked: bool)

text \<open>The module state: \<open>auctionItems\<close> and the map \<open>itemLocks\<close>.\<close>

record store =
  auctionItems :: "AuctionItem list"
  itemLocks :: "jsval \<rightharpoonup> Mutex"

definition getLockForItem :: "jsval \<Rightarrow> store \<Rightarrow> store" where
  "getLockForItem itemId st =
     (if itemLocks st itemId = None
      then st\<lparr>itemLocks := (itemLocks st)(itemId \<mapsto> Mutex False)\<rparr>
      else st)"

text \<open>
  \<open>createSampleItems\<close>; \<open>now\<close> is the reading of \<open>Date.now()\<close>, in milliseconds.
\<close>

definition createSampleItems :: "int \<Rightarrow> AuctionItem list" where
  "createSampleItems now =
    [\<lparr>item_id = ''item-001'', title = ''Vintage Mechanical Keyboard'',
       currentBid = num 50, highestBidderId = JNull,
       auctionEndTime = now + (5 * 60 * 1000),
       description = ''Cherry MX Blue switches, retro design'',
       imageUrl = ''/images/keyboard.jpg'', startingPrice = num 50, bidHistory = []\<rparr>,
     \<lparr>item_id = ''item-002'', title = ''Limited Edition Sneakers'',
       currentBid = num 120, highestBidderId = JNull,
       auctionEndTime = now + (8 * 60 * 1000),
       description = ''Size 10, never worn, original box'',
       imageUrl = ''/images/sneakers.jpg'', startingPrice = num 120, bidHistory = []\<rparr>,
     \<lparr>item_id = ''item-003'', title = ''Signed Guitar Pick Collection'',
       currentBid = num 200, highestBidderId = JNull,
       auctionEndTime = now + (3 * 60 * 1000),
       description = ''From various rock legends'',
       imageUrl = ''/images/guitar-picks.jpg'', startingPrice = num 200, bidHistory = []\<rparr>,
     \<lparr>item_id = ''item-004'', title = ''Rare Pokemon Card - Charizard'',
       currentBid = num 500, highestBidderId = JNull,
       auctionEndTime = now + (10 * 60 * 1000),
       description = ''First edition, mint condition'',
       imageUrl = ''/images/pokemon.jpg'', startingPrice = num 500, bidHistory = []\<rparr>,
     \<lparr>item_id = ''item-005'', title = ''Antique Pocket Watch'',
       currentBid = num 300, highestBidderId = JNull,
       auctionEndTime = now + (6 * 60 * 1000),
       description = ''1920s Swiss movement, gold plated'',
       imageUrl = ''/images/watch.jpg'', startingPrice = num 300, bidHistory = []\<rparr>,
     \<lparr>item_id = ''item-006'', title = ''Gaming Console Bundle'',
       currentBid = num 400, highestBidderId = JNull,
       auctionEndTime = now + (4 * 60 * 1000),
       description = ''Latest gen with 5 games included'',
       imageUrl = ''/images/console.jpg'', startingPrice = num 400, bidHistory = []\<rparr>]"

text \<open>The state when the module has been loaded at time \<open>now\<close>.\<close>

definition initial_store :: "int \<Rightarrow> store" where
  "initial_store now = \<lparr>auctionItems = createSampleItems now, itemLocks = Map.empty\<rparr>"

definition getAllItems :: "store \<Rightarrow> ItemView list" where
  "getAllItems st =
     map (\<lambda>item. \<lparr>item_id = item_id item, title = title item,
                  currentBid = currentBid item, highestBidderId = highestBidderId item,
                  auctionEndTime = auctionEndTime item,
                  description = description item, imageUrl = imageUrl item,
                  startingPrice = startingPrice item\<rparr>)
         (auctionItems st)"

text \<open>\<open>Array.prototype.find\<close> returns the first match, or \<open>undefined\<close> (\<open>None\<close>).\<close>

definition has_id :: "jsval \<Rightarrow> AuctionItem \<Rightarrow> bool" where
  "has_id itemId item = strict_eq (JStr (item_id item)) itemId"

definition getItemById :: "jsval \<Rightarrow> store \<Rightarrow> AuctionItem option" where
  "getItemById itemId st = find (has_id itemId) (auctionItems st)"

text \<open>
  The item that \<open>find\<close> returns is the stored object, so assigning to its fields changes
  the first match of the array in place.
\<close>

fun update_found :: "('a \<Rightarrow> bool) \<Rightarrow> ('a \<Rightarrow> 'a) \<Rightarrow> 'a list \<Rightarrow> 'a list" where
  "update_found P f [] = []"
| "update_found P f (x # xs) = (if P x then f x # xs else x # update_found P f xs)"

datatype error = ITEM_NOT_FOUND | AUCTION_ENDED | BID_TOO_LOW | INVALID_DATA

text \<open>
  The result object of \<open>placeBid\<close>: \<open>{success: true, item, previousBidderId}\<close> or
  \<open>{success: false, error, currentBid}\<close>, where \<open>currentBid\<close> is \<open>undefined\<close> unless the error
  is \<open>BID_TOO_LOW\<close>. The \<open>message\<close> texts are left out.
\<close>

datatype Result = Success BidItemView jsval | Failure error jsval

text \<open>
  \<open>await lock.acquire()\<close> on a free mutex locks it; on a locked one the caller is
  suspended until the mutex is released, and the calls of this model are run one at a
  time, so that case is the value \<open>None\<close>. \<open>release()\<close> unlocks the mutex.
\<close>

definition acquire :: "jsval \<Rightarrow> store \<Rightarrow> store option" where
  "acquire itemId st =
     (case itemLocks st itemId of
        Some (Mutex False) \<Rightarrow> Some (st\<lparr>itemLocks := (itemLocks st)(itemId \<mapsto> Mutex True)\<rparr>)
      | Some (Mutex True) \<Rightarrow> None
      | None \<Rightarrow> None)"

definition release :: "jsval \<Rightarrow> store \<Rightarrow> store" where
  "release itemId st = st\<lparr>itemLocks := (itemLocks st)(itemId \<mapsto> Mutex False)\<rparr>"

text \<open>
  The body of the \<open>try\<close> block of \<open>placeBid\<close>. \<open>now\<close> is what \<open>Date.now()\<close> returns and
  \<open>uuid\<close> what \<open>uuidv4()\<close> returns, when the body calls them.
\<close>

definition evaluateBid ::
  "(string \<Rightarrow> jsnum) \<Rightarrow> int \<Rightarrow> string \<Rightarrow> jsval \<Rightarrow> jsval \<Rightarrow> jsval \<Rightarrow> store \<Rightarrow> Result \<times> store" where
  "evaluateBid StringToNumber now uuid itemId bidder bidAmount st =
     (case find (has_id itemId) (auctionItems st) of
        None \<Rightarrow> (Failure ITEM_NOT_FOUND JUndefined, st)
      | Some item \<Rightarrow>
          (let serverTime = now in
           if serverTime \<ge> auctionEndTime item then (Failure AUCTION_ENDED JUndefined, st)
           else if js_le StringToNumber bidAmount (currentBid item)
           then (Failure BID_TOO_LOW (currentBid item), st)
           else
             (let previousBidderId = highestBidderId item;
                  item' = item\<lparr>currentBid := bidAmount, highestBidderId := bidder,
                               bidHistory := bidHistory item @
                                 [\<lparr>bid_id = uuid, bidderId = bidder, amount = bidAmount,
                                   timestamp = serverTime\<rparr>]\<rparr>
              in (Success \<lparr>item_id = item_id item', title = title item',
                            currentBid = currentBid item',
                            highestBidderId = highestBidderId item',
                            auctionEndTime = auctionEndTime item'\<rparr> previousBidderId,
                  st\<lparr>auctionItems :=
                       update_found (has_id itemId) (\<lambda>_. item') (auctionItems st)\<rparr>))))"

text \<open>
  \<open>placeBid\<close>: get or create the item's mutex, acquire it, run the body, release in
  \<open>finally\<close>. The body has no \<open>await\<close>, so a call that gets the mutex runs to its end.
\<close>

definition placeBid ::
  "(string \<Rightarrow> jsnum) \<Rightarrow> int \<Rightarrow> string \<Rightarrow> jsval \<Rightarrow> jsval \<Rightarrow> jsval \<Rightarrow> store
     \<Rightarrow> (Result \<times> store) option" where
  "placeBid StringToNumber now uuid itemId bidder bidAmount st =
     (case acquire itemId (getLockForItem itemId st) of
        None \<Rightarrow> None
      | Some held \<Rightarrow>
          (case evaluateBid StringToNumber now uuid itemId bidder bidAmount held of
             (result, st') \<Rightarrow> Some (result, release itemId st')))"

definition resetItems :: "int \<Rightarrow> store \<Rightarrow> store" where
  "resetItems now st = st\<lparr>auctionItems := createSampleItems now, itemLocks := Map.empty\<rparr>"

section \<open>The socket handler of \<open>BID_PLACED\<close>\<close>

text \<open>
  What the handler passes to the acknowledgement callback: \<open>{success: true, item}\<close>, or
  \<open>{success: false, error, currentBid}\<close> (the reply of \<open>INVALID_DATA\<close> has no \<open>currentBid\<close>,
  which is \<open>undefined\<close> as well). The \<open>message\<close> texts are left out.
\<close>

datatype Reply = ReplySuccess BidItemView | ReplyFailure error jsval

text \<open>
  What the handler broadcasts with \<open>io.emit\<close>:
  \<open>UPDATE_BID {itemId, currentBid, highestBidderId, previousBidderId, serverTime}\<close> and
  \<open>OUTBID {itemId, outbidUserId, newBid, newBidderId}\<close>, the fields in this order.
\<close>

datatype Event = UPDATE_BID string jsval jsval jsval int | OUTBID string jsval jsval jsval

text \<open>
  How a run of the handler ends: the destructuring of a payload that is \<open>undefined\<close> or
  \<open>null\<close> throws; the call of \<open>placeBid\<close> may stay suspended at the mutex; otherwise the
  handler is done, with the reply it gave (if any), the events it emitted and the store.
\<close>

datatype handled = Threw_TypeError | Suspended | Done "Reply option" "Event list" store

text \<open>\<open>if (typeof callback === 'function') callback(reply)\<close>\<close>

definition answer :: "bool \<Rightarrow> Reply \<Rightarrow> Reply option" where
  "answer callback_is_function reply = (if callback_is_function then Some reply else None)"

text \<open>
  The handler. The payload is \<open>None\<close> when it is \<open>undefined\<close> or \<open>null\<close>, and else the three
  fields the handler reads from it, \<open>JUndefined\<close> for a field that is missing. \<open>now\<close> and
  \<open>uuid\<close> are the readings of \<open>placeBid\<close>, \<open>emitTime\<close> is what \<open>getServerTime()\<close> returns
  when the update is emitted.
\<close>

definition on_BID_PLACED ::
  "(string \<Rightarrow> jsnum) \<Rightarrow> int \<Rightarrow> string \<Rightarrow> int \<Rightarrow> (jsval \<times> jsval \<times> jsval) option \<Rightarrow> bool
     \<Rightarrow> store \<Rightarrow> handled" where
  "on_BID_PLACED StringToNumber now uuid emitTime data callback_is_function st =
     (case data of
        None \<Rightarrow> Threw_TypeError
      | Some (itemId, bidAmount, bidder) \<Rightarrow>
          if \<not> ToBoolean itemId \<or> \<not> ToBoolean bidAmount \<or> \<not> ToBoolean bidder
          then Done (answer callback_is_function (ReplyFailure INVALID_DATA JUndefined)) [] st
          else
            (case placeBid StringToNumber now uuid itemId bidder bidAmount st of
               None \<Rightarrow> Suspended
             | Some (Success item previousBidderId, st') \<Rightarrow>
                 Done (answer callback_is_function (ReplySuccess item))
                   (UPDATE_BID (item_id item) (currentBid item) (highestBidderId item)
                      previousBidderId emitTime #
                    (if ToBoolean previousBidderId \<and> \<not> strict_eq previousBidderId bidder
                     then [OUTBID (item_id item) previousBidderId (currentBid item)
                             (highestBidderId item)]
                     else []))
                   st'
             | Some (Failure err cur, st') \<Rightarrow>
                 Done (answer callback_is_function (ReplyFailure err cur)) [] st'))"

section \<open>Runs of the server\<close>

text \<open>The gate of an item is free when its mutex is absent or unlocked.\<close>

definition gate_free :: "jsval \<Rightarrow> store \<Rightarrow> bool" where
  "gate_free itemId st = (itemLocks st itemId \<noteq> Some (Mutex True))"

text \<open>
  The stores the running server can be in: the store is loaded once, and afterwards only
  the handler of \<open>BID_PLACED\<close> (the one caller of \<open>placeBid\<close>) and the reset route
  (\<open>resetItems\<close>) change it.
\<close>

inductive reachable :: "(string \<Rightarrow> jsnum) \<Rightarrow> store \<Rightarrow> bool"
  for StringToNumber :: "string \<Rightarrow> jsnum" where
  loaded: "reachable StringToNumber (initial_store now)"
| bid: "reachable StringToNumber st \<Longrightarrow>
        on_BID_PLACED StringToNumber now uuid emitTime data callback_is_function st =
          Done reply events st' \<Longrightarrow>
        reachable StringToNumber st'"
| reset: "reachable StringToNumber st \<Longrightarrow> reachable StringToNumber (resetItems now st)"

text \<open>
  A sequence of calls of the store's exported functions, each run to its end before the
  next.
\<close>

datatype call = PlaceBid int string jsval jsval jsval | ResetItems int

fun run :: "(string \<Rightarrow> jsnum) \<Rightarrow> call list \<Rightarrow> store \<Rightarrow> store option" where
  "run StringToNumber [] st = Some st"
| "run StringToNumber (PlaceBid now uuid itemId bidder bidAmount # calls) st =
     (case placeBid StringToNumber now uuid itemId bidder bidAmount st of
        None \<Rightarrow> None
      | Some (result, st') \<Rightarrow> run StringToNumber calls st')"
| "run StringToNumber (ResetItems now # calls) st = run StringToNumber calls (resetItems now st)"

text \<open>The identifiers passed to \<open>placeBid\<close> since the last reset, given those before.\<close>

fun ids_since_reset :: "call list \<Rightarrow> jsval set \<Rightarrow> jsval set" where
  "ids_since_reset [] ids = ids"
| "ids_since_reset (PlaceBid now uuid itemId bidder bidAmount # calls) ids =
     ids_since_reset calls (insert itemId ids)"
| "ids_since_reset (ResetItems now # calls) ids = ids_since_reset calls {}"

section \<open>Well-formed bids and consistent items\<close>

text \<open>A value that is a Number other than NaN.\<close>

fun is_number :: "jsval \<Rightarrow> bool" where
  "is_number (JNum NaN) = False"
| "is_number (JNum n) = True"
| "is_number v = False"

text \<open>A call that places a bid of such an amount for a bidder that is not \<open>null\<close>.\<close>

fun numeric_bid :: "call \<Rightarrow> bool" where
  "numeric_bid (PlaceBid now uuid itemId bidder bidAmount) =
     (is_number bidAmount \<and> bidder \<noteq> JNull)"
| "numeric_bid (ResetItems now) = False"

text \<open>
  An item is consistent when its prices are numbers, its current bid is not below its
  starting price, and either it has no bid, the current bid is the starting price and
  there is no highest bidder, or the current bid and the highest bidder are those of the
  last record of its history, the bid differs from the starting price and the bidder is
  not \<open>null\<close>.
\<close>

definition item_consistent :: "(string \<Rightarrow> jsnum) \<Rightarrow> AuctionItem \<Rightarrow> bool" where
  "item_consistent StringToNumber item =
     (is_number (startingPrice item) \<and> is_number (currentBid item) \<and>
      js_le StringToNumber (startingPrice item) (currentBid item) \<and>
      (if bidHistory item = []
       then currentBid item = startingPrice item \<and> highestBidderId item = JNull
       else currentBid item \<noteq> startingPrice item \<and> highestBidderId item \<noteq> JNull \<and>
            amount (last (bidHistory item)) = currentBid item \<and>
            bidderId (last (bidHistory item)) = highestBidderId item))"

text \<open>
  How an item may differ from its earlier self: the current bid has not decreased, the
  earlier history is a prefix of the later one, current bid and highest bidder are
  unchanged unless a record was appended, and identifier, starting price and end time are
  the same.
\<close>

definition item_grown :: "(string \<Rightarrow> jsnum) \<Rightarrow> AuctionItem \<Rightarrow> AuctionItem \<Rightarrow> bool" where
  "item_grown StringToNumber before after =
     (is_number (currentBid before) \<and> is_number (currentBid after) \<and>
      js_le StringToNumber (currentBid before) (currentBid after) \<and>
      take (length (bidHistory before)) (bidHistory after) = bidHistory before \<and>
      length (bidHistory before) \<le> length (bidHistory after) \<and>
      (if length (bidHistory after) = length (bidHistory before)
       then currentBid after = currentBid before \<and>
            highestBidderId after = highestBidderId before
       else True) \<and>
      item_id after = item_id before \<and> startingPrice after = startingPrice before \<and>
      auctionEndTime after = auctionEndTime before)"

section \<open>Evaluation of concrete calls\<close>

lemmas store_eval = gate_free_def initial_store_def createSampleItems_def getItemById_def
  has_id_def strict_eq_def js_le_def placeBid_def acquire_def getLockForItem_def
  evaluateBid_def release_def

section \<open>The gate around the critical section\<close>

lemma acquire_getLockForItem:
  "gate_free itemId st \<Longrightarrow>
   acquire itemId (getLockForItem itemId st) =
     Some (st\<lparr>itemLocks := (itemLocks st)(itemId \<mapsto> Mutex True)\<rparr>)"
  by (cases "itemLocks st itemId")
     (auto simp: gate_free_def acquire_def getLockForItem_def split: Mutex.splits bool.splits)

lemma acquire_locked:
  "\<not> gate_free itemId st \<Longrightarrow> acquire itemId (getLockForItem itemId st) = None"
  by (simp add: gate_free_def acquire_def getLockForItem_def)

lemma placeBid_eq:
  assumes "gate_free itemId st"
  shows "placeBid S now uuid itemId bidder amt st =
     (case evaluateBid S now uuid itemId bidder amt
             (st\<lparr>itemLocks := (itemLocks st)(itemId \<mapsto> Mutex True)\<rparr>) of
        (r, st') \<Rightarrow> Some (r, release itemId st'))"
  by (simp add: placeBid_def acquire_getLockForItem[OF assms])

lemma placeBid_Some_gate_free:
  "placeBid S now uuid itemId bidder amt st = Some x \<Longrightarrow> gate_free itemId st"
  by (cases "gate_free itemId st") (simp_all add: placeBid_def acquire_locked)

lemma evaluateBid_itemLocks:
  "itemLocks (snd (evaluateBid S now uuid itemId bidder amt st)) = itemLocks st"
  by (simp add: evaluateBid_def Let_def split: option.splits)

lemma evaluateBid_Failure:
  "evaluateBid S now uuid itemId bidder amt st = (Failure e cur, st') \<Longrightarrow> st' = st"
  by (auto simp: evaluateBid_def Let_def split: option.splits if_splits)

section \<open>The bid evaluation\<close>

text \<open>Assigning to the found item replaces it where it stands and touches no other item.\<close>

lemma update_found_split:
  "find P xs = Some x \<Longrightarrow>
   \<exists>ys zs. xs = ys @ x # zs \<and> (\<forall>y\<in>set ys. \<not> P y) \<and> update_found P f xs = ys @ f x # zs"
proof (induction xs)
  case Nil
  then show ?case by simp
next
  case (Cons a xs)
  show ?case
  proof (cases "P a")
    case True
    with Cons.prems have "a = x" by simp
    with True show ?thesis by (intro exI[of _ "[]"] exI[of _ xs]) simp
  next
    case False
    with Cons.prems have "find P xs = Some x" by simp
    from Cons.IH[OF this] obtain ys zs where
      "xs = ys @ x # zs" "\<forall>y\<in>set ys. \<not> P y" "update_found P f xs = ys @ f x # zs" by blast
    with False show ?thesis by (intro exI[of _ "a # ys"] exI[of _ zs]) simp
  qed
qed

text \<open>
  C1. A call of \<open>placeBid\<close> that gets the item's gate makes its checks in a fixed order,
  the first failure deciding: no item with this identifier gives \<open>ITEM_NOT_FOUND\<close>; else a
  clock reading at or after the item's end time gives \<open>AUCTION_ENDED\<close>; else an amount that
  is \<open><=\<close> the current bid gives \<open>BID_TOO_LOW\<close>; else the bid is accepted: the result carries
  the bidder that led before the update, the item's current bid becomes the amount, its
  highest bidder the bidder, and one bid record (the identifier of \<open>uuidv4()\<close>, the bidder,
  the amount, the clock reading of the deadline check) is appended to its history, no other
  item changing.
\<close>

theorem placeBid_checks_in_order:
  assumes "gate_free itemId st"
  shows "\<exists>r st'. placeBid S now uuid itemId bidder amt st = Some (r, st') \<and>
     (case getItemById itemId st of
        None \<Rightarrow> r = Failure ITEM_NOT_FOUND JUndefined \<and> auctionItems st' = auctionItems st
      | Some item \<Rightarrow>
          if now \<ge> auctionEndTime item
          then r = Failure AUCTION_ENDED JUndefined \<and> auctionItems st' = auctionItems st
          else if js_le S amt (currentBid item)
          then r = Failure BID_TOO_LOW (currentBid item) \<and> auctionItems st' = auctionItems st
          else r = Success \<lparr>item_id = item_id item, title = title item, currentBid = amt,
                             highestBidderId = bidder, auctionEndTime = auctionEndTime item\<rparr>
                     (highestBidderId item) \<and>
               (\<exists>before after.
                  auctionItems st = before @ item # after \<and>
                  auctionItems st' =
                    before @
                    item\<lparr>currentBid := amt, highestBidderId := bidder,
                         bidHistory := bidHistory item @
                           [\<lparr>bid_id = uuid, bidderId = bidder, amount = amt,
                             timestamp = now\<rparr>]\<rparr> # after))"
proof (cases "find (has_id itemId) (auctionItems st)")
  case None
  then show ?thesis
    by (simp add: placeBid_eq[OF assms] evaluateBid_def getItemById_def release_def)
next
  case (Some item)
  let ?f = "\<lambda>_::AuctionItem. item\<lparr>currentBid := amt, highestBidderId := bidder,
                         bidHistory := bidHistory item @
                           [\<lparr>bid_id = uuid, bidderId = bidder, amount = amt,
                             timestamp = now\<rparr>]\<rparr>"
  from update_found_split[OF Some, of ?f] obtain ys zs where
    split: "auctionItems st = ys @ item # zs"
      "update_found (has_id itemId) ?f (auctionItems st) = ys @ ?f item # zs"
    by blast
  show ?thesis
    using Some split
    by (auto simp: placeBid_eq[OF assms] evaluateBid_def getItemById_def release_def Let_def)
qed

theorem placeBid_checks_in_order_witness:
  "gate_free (JStr ''item-001'') (initial_store 0) \<and>
   (\<exists>st'. placeBid (\<lambda>_. NaN) 1000 ''b1'' (JStr ''item-009'') (JStr ''ann'') (num 60)
            (initial_store 0) = Some (Failure ITEM_NOT_FOUND JUndefined, st') \<and>
          auctionItems st' = auctionItems (initial_store 0)) \<and>
   (\<exists>st'. placeBid (\<lambda>_. NaN) 300000 ''b1'' (JStr ''item-001'') (JStr ''ann'') (num 60)
            (initial_store 0) = Some (Failure AUCTION_ENDED JUndefined, st') \<and>
          auctionItems st' = auctionItems (initial_store 0)) \<and>
   (\<exists>st'. placeBid (\<lambda>_. NaN) 1000 ''b1'' (JStr ''item-001'') (JStr ''ann'') (num 50)
            (initial_store 0) = Some (Failure BID_TOO_LOW (num 50), st') \<and>
          auctionItems st' = auctionItems (initial_store 0)) \<and>
   (\<exists>st'. placeBid (\<lambda>_. NaN) 1000 ''b1'' (JStr ''item-001'') (JStr ''ann'') (num 60)
            (initial_store 0) =
          Some (Success \<lparr>item_id = ''item-001'', title = ''Vintage Mechanical Keyboard'',
                          currentBid = num 60, highestBidderId = JStr ''ann'',
                          auctionEndTime = 300000\<rparr> JNull, st'))"
proof -
  have free: "gate_free i (initial_store 0)" for i
    by (simp add: gate_free_def initial_store_def)
  have a: "\<exists>st'. placeBid (\<lambda>_. NaN) 1000 ''b1'' (JStr ''item-009'') (JStr ''ann'') (num 60)
            (initial_store 0) = Some (Failure ITEM_NOT_FOUND JUndefined, st') \<and>
          auctionItems st' = auctionItems (initial_store 0)"
    using placeBid_checks_in_order[where itemId = "JStr ''item-009''" and st = "initial_store 0"
        and S = "\<lambda>_. NaN" and now = 1000 and uuid = "''b1''" and bidder = "JStr ''ann''"
        and amt = "num 60", OF free]
    by (simp add: getItemById_def has_id_def strict_eq_def initial_store_def
        createSampleItems_def)
  have b: "\<exists>st'. placeBid (\<lambda>_. NaN) 300000 ''b1'' (JStr ''item-001'') (JStr ''ann'') (num 60)
            (initial_store 0) = Some (Failure AUCTION_ENDED JUndefined, st') \<and>
          auctionItems st' = auctionItems (initial_store 0)"
    using placeBid_checks_in_order[where itemId = "JStr ''item-001''" and st = "initial_store 0"
        and S = "\<lambda>_. NaN" and now = 300000 and uuid = "''b1''" and bidder = "JStr ''ann''"
        and amt = "num 60", OF free]
    by (simp add: getItemById_def has_id_def strict_eq_def initial_store_def
        createSampleItems_def)
  have c: "\<exists>st'. placeBid (\<lambda>_. NaN) 1000 ''b1'' (JStr ''item-001'') (JStr ''ann'') (num 50)
            (initial_store 0) = Some (Failure BID_TOO_LOW (num 50), st') \<and>
          auctionItems st' = auctionItems (initial_store 0)"
    using placeBid_checks_in_order[where itemId = "JStr ''item-001''" and st = "initial_store 0"
        and S = "\<lambda>_. NaN" and now = 1000 and uuid = "''b1''" and bidder = "JStr ''ann''"
        and amt = "num 50", OF free]
    by (simp add: getItemById_def has_id_def strict_eq_def initial_store_def
        createSampleItems_def js_le_def)
  have d: "\<exists>st'. placeBid (\<lambda>_. NaN) 1000 ''b1'' (JStr ''item-001'') (JStr ''ann'') (num 60)
            (initial_store 0) =
          Some (Success \<lparr>item_id = ''item-001'', title = ''Vintage Mechanical Keyboard'',
                          currentBid = num 60, highestBidderId = JStr ''ann'',
                          auctionEndTime = 300000\<rparr> JNull, st')"
    using placeBid_checks_in_order[where itemId = "JStr ''item-001''" and st = "initial_store 0"
        and S = "\<lambda>_. NaN" and now = 1000 and uuid = "''b1''" and bidder = "JStr ''ann''"
        and amt = "num 60", OF free]
    by (auto simp add: getItemById_def has_id_def strict_eq_def initial_store_def
        createSampleItems_def js_le_def)
  from free a b c d show ?thesis by blast
qed

text \<open>
  C2. A call of \<open>placeBid\<close> that is rejected (\<open>ITEM_NOT_FOUND\<close>, \<open>AUCTION_ENDED\<close> or
  \<open>BID_TOO_LOW\<close>, the only errors it returns) leaves the items as they were: no field of an
  item changes and no bid record is appended. All that may differ in the store is that
  the gate map has the entry of the identifier, free. A \<open>BID_TOO_LOW\<close> result carries the
  current bid of the item at the time of the evaluation.
\<close>

theorem rejected_bid_changes_nothing:
  assumes "placeBid S now uuid itemId bidder amt st = Some (Failure err cur, st')"
  shows "auctionItems st' = auctionItems st \<and>
         itemLocks st' = (itemLocks st)(itemId \<mapsto> Mutex False) \<and>
         (err = ITEM_NOT_FOUND \<or> err = AUCTION_ENDED \<or> err = BID_TOO_LOW) \<and>
         (err = BID_TOO_LOW \<longrightarrow>
            (\<exists>item. getItemById itemId st = Some item \<and> cur = currentBid item))"
proof -
  from assms have free: "gate_free itemId st" by (rule placeBid_Some_gate_free)
  let ?held = "st\<lparr>itemLocks := (itemLocks st)(itemId \<mapsto> Mutex True)\<rparr>"
  obtain r st1 where ev: "evaluateBid S now uuid itemId bidder amt ?held = (r, st1)"
    by (cases "evaluateBid S now uuid itemId bidder amt ?held")
  with assms free have r: "r = Failure err cur" and st': "st' = release itemId st1"
    by (simp_all add: placeBid_eq)
  from ev r have "st1 = ?held" by (auto dest: evaluateBid_Failure)
  with st' have items: "auctionItems st' = auctionItems st"
    and locks: "itemLocks st' = (itemLocks st)(itemId \<mapsto> Mutex False)"
    by (simp_all add: release_def)
  from ev r have "(err = ITEM_NOT_FOUND \<or> err = AUCTION_ENDED \<or> err = BID_TOO_LOW) \<and>
         (err = BID_TOO_LOW \<longrightarrow>
            (\<exists>item. getItemById itemId st = Some item \<and> cur = currentBid item))"
    by (auto simp: evaluateBid_def getItemById_def Let_def split: option.splits if_splits)
  with items locks show ?thesis by simp
qed

theorem rejected_bid_changes_nothing_witness:
  "placeBid (\<lambda>_. NaN) 1000 ''b1'' (JStr ''item-001'') (JStr ''ann'') (num 50) (initial_store 0) =
     Some (Failure BID_TOO_LOW (num 50), release (JStr ''item-001'') (initial_store 0)) \<and>
   auctionItems (release (JStr ''item-001'') (initial_store 0)) = auctionItems (initial_store 0) \<and>
   itemLocks (release (JStr ''item-001'') (initial_store 0)) =
     [JStr ''item-001'' \<mapsto> Mutex False] \<and>
   map_option currentBid (getItemById (JStr ''item-001'') (initial_store 0)) = Some (num 50)"
proof -
  have call: "placeBid (\<lambda>_. NaN) 1000 ''b1'' (JStr ''item-001'') (JStr ''ann'') (num 50)
      (initial_store 0) =
     Some (Failure BID_TOO_LOW (num 50), release (JStr ''item-001'') (initial_store 0))"
    by (simp add: store_eval)
  from rejected_bid_changes_nothing[OF call] call show ?thesis
    by (auto simp: initial_store_def)
qed

section \<open>Effects of one call of \<open>placeBid\<close>\<close>

lemma placeBid_itemLocks:
  assumes "placeBid S now uuid itemId bidder amt st = Some (r, st')"
  shows "itemLocks st' = (itemLocks st)(itemId \<mapsto> Mutex False)"
proof -
  from assms have free: "gate_free itemId st" by (rule placeBid_Some_gate_free)
  let ?held = "st\<lparr>itemLocks := (itemLocks st)(itemId \<mapsto> Mutex True)\<rparr>"
  from assms free have "st' = release itemId (snd (evaluateBid S now uuid itemId bidder amt ?held))"
    by (auto simp: placeBid_eq split: prod.splits)
  then show ?thesis
    using evaluateBid_itemLocks[of S now uuid itemId bidder amt ?held]
    by (simp add: release_def)
qed

lemma placeBid_total:
  "gate_free itemId st \<Longrightarrow> \<exists>r st'. placeBid S now uuid itemId bidder amt st = Some (r, st')"
  by (simp add: placeBid_eq split: prod.splits)

lemma placeBid_Failure_items:
  assumes "placeBid S now uuid itemId bidder amt st = Some (Failure err cur, st')"
  shows "auctionItems st' = auctionItems st"
proof -
  from assms have free: "gate_free itemId st" by (rule placeBid_Some_gate_free)
  let ?held = "st\<lparr>itemLocks := (itemLocks st)(itemId \<mapsto> Mutex True)\<rparr>"
  obtain r st1 where ev: "evaluateBid S now uuid itemId bidder amt ?held = (r, st1)"
    by (cases "evaluateBid S now uuid itemId bidder amt ?held")
  with assms free have "r = Failure err cur" and st': "st' = release itemId st1"
    by (simp_all add: placeBid_eq)
  with ev have "st1 = ?held" by (auto dest: evaluateBid_Failure)
  with st' show ?thesis by (simp add: release_def)
qed

lemma placeBid_Success_items:
  assumes "placeBid S now uuid itemId bidder amt st = Some (Success view prev, st')"
  shows "\<exists>item. find (has_id itemId) (auctionItems st) = Some item \<and>
           now < auctionEndTime item \<and> \<not> js_le S amt (currentBid item) \<and>
           prev = highestBidderId item \<and>
           view = \<lparr>item_id = item_id item, title = title item, currentBid = amt,
                   highestBidderId = bidder, auctionEndTime = auctionEndTime item\<rparr> \<and>
           auctionItems st' =
             update_found (has_id itemId)
               (\<lambda>_. item\<lparr>currentBid := amt, highestBidderId := bidder,
                          bidHistory := bidHistory item @
                            [\<lparr>bid_id = uuid, bidderId = bidder, amount = amt,
                              timestamp = now\<rparr>]\<rparr>)
               (auctionItems st)"
proof -
  from assms have free: "gate_free itemId st" by (rule placeBid_Some_gate_free)
  from assms show ?thesis
    by (auto simp: placeBid_eq[OF free] evaluateBid_def Let_def release_def
        split: option.splits if_splits)
qed

lemma find_has_id:
  "find (has_id itemId) xs = Some item \<Longrightarrow> item \<in> set xs \<and> JStr (item_id item) = itemId"
  by (auto simp: find_Some_iff has_id_def strict_eq_def)

lemma in_set_update_found:
  "x \<in> set (update_found P f xs) \<Longrightarrow> x \<in> set xs \<or> (\<exists>y \<in> set xs. P y \<and> x = f y)"
  by (induction xs) (auto split: if_splits)

section \<open>The stores of the running server\<close>

text \<open>
  Between two requests no gate is held, and the highest bidder of an item is \<open>null\<close> or a
  value that passed the handler's check of \<open>bidderId\<close>.
\<close>

lemma reachable_invariant:
  "reachable S st \<Longrightarrow>
   (\<forall>k. gate_free k st) \<and>
   (\<forall>item \<in> set (auctionItems st).
      highestBidderId item = JNull \<or> ToBoolean (highestBidderId item))"
proof (induction rule: reachable.induct)
  case (loaded now)
  show ?case by (simp add: initial_store_def gate_free_def createSampleItems_def)
next
  case (reset st now)
  show ?case by (simp add: resetItems_def gate_free_def createSampleItems_def)
next
  case (bid st now uuid emitTime data cb reply events st')
  from bid.IH have free: "\<And>k. gate_free k st"
    and ok: "\<And>item. item \<in> set (auctionItems st) \<Longrightarrow>
               highestBidderId item = JNull \<or> ToBoolean (highestBidderId item)"
    by blast+
  from bid.hyps(2) obtain itemId bidAmount bidder where
    data: "data = Some (itemId, bidAmount, bidder)"
    by (cases data) (auto simp: on_BID_PLACED_def)
  show ?case
  proof (cases "\<not> ToBoolean itemId \<or> \<not> ToBoolean bidAmount \<or> \<not> ToBoolean bidder")
    case True
    with bid.hyps(2) data have "st' = st" by (simp add: on_BID_PLACED_def)
    with bid.IH show ?thesis by simp
  next
    case False
    then have truthy: "ToBoolean bidder" by simp
    from placeBid_total[OF free] obtain r st1 where
      pb: "placeBid S now uuid itemId bidder bidAmount st = Some (r, st1)" by blast
    with bid.hyps(2) data False have st': "st' = st1"
      by (cases r) (simp_all add: on_BID_PLACED_def)
    from placeBid_itemLocks[OF pb] free have locks: "\<forall>k. gate_free k st1"
      by (simp add: gate_free_def)
    have items: "\<forall>item \<in> set (auctionItems st1).
        highestBidderId item = JNull \<or> ToBoolean (highestBidderId item)"
    proof (cases r)
      case (Failure err cur)
      with pb have "auctionItems st1 = auctionItems st" by (auto dest: placeBid_Failure_items)
      with ok show ?thesis by simp
    next
      case (Success view prev)
      from placeBid_Success_items[OF pb[unfolded Success]] obtain item where
        upd: "auctionItems st1 =
             update_found (has_id itemId)
               (\<lambda>_. item\<lparr>currentBid := bidAmount, highestBidderId := bidder,
                          bidHistory := bidHistory item @
                            [\<lparr>bid_id = uuid, bidderId = bidder, amount = bidAmount,
                              timestamp = now\<rparr>]\<rparr>)
               (auctionItems st)"
        by blast
      show ?thesis
      proof
        fix x assume "x \<in> set (auctionItems st1)"
        with upd in_set_update_found[of x] have
          "x \<in> set (auctionItems st) \<or> highestBidderId x = bidder" by fastforce
        with ok truthy show "highestBidderId x = JNull \<or> ToBoolean (highestBidderId x)"
          by auto
      qed
    qed
    from locks items st' show ?thesis by simp
  qed
qed

section \<open>The events of a bid\<close>

text \<open>
  C8. In the running server, the events of a \<open>BID_PLACED\<close> request that reaches
  \<open>placeBid\<close> are a function of the outcome (and of the clock reading at the emission): an
  accepted bid gives exactly one \<open>UPDATE_BID\<close> with the item's identifier, its new current bid,
  its new highest bidder, the previous highest bidder and the server time, followed by
  exactly one \<open>OUTBID\<close> (item, the previous bidder as the outbid user, the new bid, the new
  bidder) if and only if the previous bidder is not \<open>null\<close> and differs from the new highest
  bidder; a rejected bid gives no event.
\<close>

theorem fanout_of_outcome:
  assumes "reachable S st" and "ToBoolean itemId" and "ToBoolean bidAmount" and "ToBoolean bidder"
  shows "\<exists>result st' reply.
     placeBid S now uuid itemId bidder bidAmount st = Some (result, st') \<and>
     on_BID_PLACED S now uuid emitTime (Some (itemId, bidAmount, bidder)) cb st =
       Done reply
         (case result of
            Success item previousBidderId \<Rightarrow>
              UPDATE_BID (item_id item) (currentBid item) (highestBidderId item)
                previousBidderId emitTime #
              (if previousBidderId \<noteq> JNull \<and> previousBidderId \<noteq> highestBidderId item
               then [OUTBID (item_id item) previousBidderId (currentBid item)
                       (highestBidderId item)]
               else [])
          | Failure err cur \<Rightarrow> [])
         st' \<and>
     (case result of
        Success item previousBidderId \<Rightarrow>
          JStr (item_id item) = itemId \<and> currentBid item = bidAmount \<and>
          highestBidderId item = bidder \<and>
          map_option highestBidderId (getItemById itemId st) = Some previousBidderId
      | Failure err cur \<Rightarrow> True)"
proof -
  from reachable_invariant[OF assms(1)] have free: "gate_free itemId st"
    and ok: "\<And>item. item \<in> set (auctionItems st) \<Longrightarrow>
               highestBidderId item = JNull \<or> ToBoolean (highestBidderId item)"
    by blast+
  from placeBid_total[OF free] obtain r st1 where
    pb: "placeBid S now uuid itemId bidder bidAmount st = Some (r, st1)" by blast
  show ?thesis
  proof (cases r)
    case (Failure err cur)
    with pb assms(2-4) show ?thesis by (simp add: on_BID_PLACED_def)
  next
    case (Success view prev)
    from placeBid_Success_items[OF pb[unfolded Success]] obtain item where
      found: "find (has_id itemId) (auctionItems st) = Some item"
      and prev: "prev = highestBidderId item"
      and view: "view = \<lparr>item_id = item_id item, title = title item, currentBid = bidAmount,
                   highestBidderId = bidder, auctionEndTime = auctionEndTime item\<rparr>"
      by blast
    from find_has_id[OF found] ok prev have p: "prev = JNull \<or> ToBoolean prev"
      and id: "JStr (item_id item) = itemId" by auto
    from p have guard: "(ToBoolean prev \<and> \<not> strict_eq prev bidder) =
                        (prev \<noteq> JNull \<and> prev \<noteq> bidder)"
      by (auto simp: strict_eq_def)
    from pb Success assms(2-4) guard view id found prev show ?thesis
      by (simp add: on_BID_PLACED_def getItemById_def)
  qed
qed


text \<open>Two bids on the first item of the store loaded at time 0.\<close>

lemma first_bid:
  "placeBid S 1000 ''b1'' (JStr ''item-001'') (JStr ''ann'') (num 60) (initial_store 0) =
     Some (Success \<lparr>item_id = ''item-001'', title = ''Vintage Mechanical Keyboard'',
                     currentBid = num 60, highestBidderId = JStr ''ann'',
                     auctionEndTime = 300000\<rparr> JNull,
           \<lparr>auctionItems =
              (createSampleItems 0)[0 := (createSampleItems 0 ! 0)
                 \<lparr>currentBid := num 60, highestBidderId := JStr ''ann'',
                  bidHistory := [\<lparr>bid_id = ''b1'', bidderId = JStr ''ann'', amount = num 60,
                                  timestamp = 1000\<rparr>]\<rparr>],
            itemLocks = [JStr ''item-001'' \<mapsto> Mutex False]\<rparr>)"
  by (simp add: store_eval)

lemma second_bid:
  "placeBid S 2000 ''b2'' (JStr ''item-001'') (JStr ''bob'') (num 70)
     \<lparr>auctionItems =
              (createSampleItems 0)[0 := (createSampleItems 0 ! 0)
                 \<lparr>currentBid := num 60, highestBidderId := JStr ''ann'',
                  bidHistory := [\<lparr>bid_id = ''b1'', bidderId = JStr ''ann'', amount = num 60,
                                  timestamp = 1000\<rparr>]\<rparr>],
            itemLocks = [JStr ''item-001'' \<mapsto> Mutex False]\<rparr> =
     Some (Success \<lparr>item_id = ''item-001'', title = ''Vintage Mechanical Keyboard'',
                     currentBid = num 70, highestBidderId = JStr ''bob'',
                     auctionEndTime = 300000\<rparr> (JStr ''ann''),
           \<lparr>auctionItems =
              (createSampleItems 0)[0 := (createSampleItems 0 ! 0)
                 \<lparr>currentBid := num 70, highestBidderId := JStr ''bob'',
                  bidHistory := [\<lparr>bid_id = ''b1'', bidderId = JStr ''ann'', amount = num 60,
                                  timestamp = 1000\<rparr>,
                                 \<lparr>bid_id = ''b2'', bidderId = JStr ''bob'', amount = num 70,
                                  timestamp = 2000\<rparr>]\<rparr>],
            itemLocks = [JStr ''item-001'' \<mapsto> Mutex False]\<rparr>)"
  by (simp add: store_eval)

theorem fanout_of_outcome_witness:
  "reachable (\<lambda>_. NaN) (initial_store 0) \<and>
   (\<exists>reply st'.
      on_BID_PLACED (\<lambda>_. NaN) 1000 ''b1'' 1001 (Some (JStr ''item-001'', num 60, JStr ''ann''))
        True (initial_store 0) =
      Done reply [UPDATE_BID ''item-001'' (num 60) (JStr ''ann'') JNull 1001] st' \<and>
      reachable (\<lambda>_. NaN) st' \<and>
      (\<exists>reply' st''.
         on_BID_PLACED (\<lambda>_. NaN) 2000 ''b2'' 2001
           (Some (JStr ''item-001'', num 70, JStr ''bob'')) True st' =
         Done reply'
           [UPDATE_BID ''item-001'' (num 70) (JStr ''bob'') (JStr ''ann'') 2001,
            OUTBID ''item-001'' (JStr ''ann'') (num 70) (JStr ''bob'')] st''))"
proof -
  let ?S = "\<lambda>_::string. NaN"
  let ?st1 = "\<lparr>auctionItems =
              (createSampleItems 0)[0 := (createSampleItems 0 ! 0)
                 \<lparr>currentBid := num 60, highestBidderId := JStr ''ann'',
                  bidHistory := [\<lparr>bid_id = ''b1'', bidderId = JStr ''ann'', amount = num 60,
                                  timestamp = 1000\<rparr>]\<rparr>],
            itemLocks = [JStr ''item-001'' \<mapsto> Mutex False]\<rparr>"
  have r0: "reachable ?S (initial_store 0)" by (rule reachable.loaded)
  from fanout_of_outcome[OF r0, where itemId = "JStr ''item-001''" and bidAmount = "num 60"
      and bidder = "JStr ''ann''" and now = 1000 and uuid = "''b1''" and emitTime = 1001
      and cb = True]
  obtain reply where h1:
    "on_BID_PLACED ?S 1000 ''b1'' 1001 (Some (JStr ''item-001'', num 60, JStr ''ann''))
        True (initial_store 0) =
      Done reply [UPDATE_BID ''item-001'' (num 60) (JStr ''ann'') JNull 1001] ?st1"
    by (auto simp: first_bid)
  then have r1: "reachable ?S ?st1" by (rule reachable.bid[OF r0])
  from fanout_of_outcome[OF r1, where itemId = "JStr ''item-001''" and bidAmount = "num 70"
      and bidder = "JStr ''bob''" and now = 2000 and uuid = "''b2''" and emitTime = 2001
      and cb = True]
  obtain reply' st'' where h2:
    "on_BID_PLACED ?S 2000 ''b2'' 2001 (Some (JStr ''item-001'', num 70, JStr ''bob''))
        True ?st1 =
      Done reply'
        [UPDATE_BID ''item-001'' (num 70) (JStr ''bob'') (JStr ''ann'') 2001,
         OUTBID ''item-001'' (JStr ''ann'') (num 70) (JStr ''bob'')] st''"
    by (auto simp: second_bid)
  from r0 h1 r1 h2 show ?thesis by blast
qed

section \<open>Reset\<close>

text \<open>
  C7. After \<open>resetItems\<close>, whatever the store held before, every item has its current bid
  equal to its starting price, no highest bidder, an empty bid history and an end time
  strictly after the clock reading of the reset: each end time is that reading plus the
  item's fixed duration (5, 8, 3, 10, 6 and 4 minutes).
\<close>

theorem resetItems_reseeds:
  "(\<forall>item \<in> set (auctionItems (resetItems now st)).
      currentBid item = startingPrice item \<and> highestBidderId item = JNull \<and>
      bidHistory item = [] \<and> auctionEndTime item > now) \<and>
   map (\<lambda>item. auctionEndTime item - now) (auctionItems (resetItems now st)) =
     [300000, 480000, 180000, 600000, 360000, 240000] \<and>
   getAllItems (resetItems now st) = getAllItems (initial_store now)"
  by (simp add: resetItems_def createSampleItems_def getAllItems_def initial_store_def)

theorem resetItems_reseeds_witness:
  "map_option (\<lambda>(r, st). map currentBid (auctionItems st))
     (placeBid (\<lambda>_. NaN) 1000 ''b1'' (JStr ''item-001'') (JStr ''ann'') (num 60)
        (initial_store 0)) =
     Some [num 60, num 120, num 200, num 500, num 300, num 400] \<and>
   map_option (\<lambda>(r, st). list_all (\<lambda>item. currentBid item = startingPrice item \<and>
        highestBidderId item = JNull \<and> bidHistory item = [] \<and> auctionEndTime item > 5000)
        (auctionItems (resetItems 5000 st)))
     (placeBid (\<lambda>_. NaN) 1000 ''b1'' (JStr ''item-001'') (JStr ''ann'') (num 60)
        (initial_store 0)) = Some True"
proof -
  have "list_all (\<lambda>item. currentBid item = startingPrice item \<and>
        highestBidderId item = JNull \<and> bidHistory item = [] \<and> auctionEndTime item > 5000)
        (auctionItems (resetItems 5000 st))" for st
    using resetItems_reseeds[of 5000 st] unfolding list_all_iff by blast
  then show ?thesis
    by (simp add: first_bid createSampleItems_def)
qed

section \<open>Amounts that are not numbers\<close>

text \<open>
  C5 (not met by the code). \<open>placeBid\<close> rejects only an amount that is \<open><=\<close> the current bid.
  For NaN that comparison is false, as is \<open>>\<close>, so a bid of NaN on an open item is accepted
  and NaN becomes the item's current bid.
\<close>

theorem NaN_bid_is_accepted:
  "placeBid S 1000 ''b1'' (JStr ''item-001'') (JStr ''ann'') (JNum NaN) (initial_store 0) =
     Some (Success \<lparr>item_id = ''item-001'', title = ''Vintage Mechanical Keyboard'',
                     currentBid = JNum NaN, highestBidderId = JStr ''ann'',
                     auctionEndTime = 300000\<rparr> JNull,
           \<lparr>auctionItems =
              (createSampleItems 0)[0 := (createSampleItems 0 ! 0)
                 \<lparr>currentBid := JNum NaN, highestBidderId := JStr ''ann'',
                  bidHistory := [\<lparr>bid_id = ''b1'', bidderId = JStr ''ann'', amount = JNum NaN,
                                  timestamp = 1000\<rparr>]\<rparr>],
            itemLocks = [JStr ''item-001'' \<mapsto> Mutex False]\<rparr>) \<and>
   \<not> js_gt S (JNum NaN) (num 50)"
  by (simp add: store_eval js_gt_def)

text \<open>
  The same happens through the socket handler with an amount that is a string the runtime
  does not read as a number: the string is truthy, so it passes the handler's check.
\<close>

lemma non_numeric_string_is_accepted:
  assumes "S ''abc'' = NaN"
  shows "\<exists>st'. on_BID_PLACED S 1000 ''b1'' 1001
            (Some (JStr ''item-001'', JStr ''abc'', JStr ''ann'')) True (initial_store 0) =
          Done (Some (ReplySuccess \<lparr>item_id = ''item-001'',
                        title = ''Vintage Mechanical Keyboard'', currentBid = JStr ''abc'',
                        highestBidderId = JStr ''ann'', auctionEndTime = 300000\<rparr>))
            [UPDATE_BID ''item-001'' (JStr ''abc'') (JStr ''ann'') JNull 1001] st'"
  using assms by (simp add: on_BID_PLACED_def answer_def store_eval)

text \<open>
  For numbers other than NaN, \<open><=\<close> is the negation of \<open>>\<close>.
\<close>

lemma js_le_numbers:
  "a \<noteq> NaN \<Longrightarrow> b \<noteq> NaN \<Longrightarrow> js_le S (JNum a) (JNum b) = (\<not> js_gt S (JNum a) (JNum b))"
  by (cases a; cases b) (simp_all add: js_le_def js_gt_def split: bool.splits)

text \<open>
  An amount that is zero or a negative number is rejected as \<open>BID_TOO_LOW\<close>, without any
  change of the items, whenever the item exists, its auction is open and its current bid
  is a positive number.
\<close>

theorem non_positive_amount_is_rejected:
  assumes "getItemById itemId st = Some item" and "currentBid item = num c" and "0 < c"
    and "a \<le> 0" and "gate_free itemId st" and "now < auctionEndTime item"
  shows "\<exists>st'. placeBid S now uuid itemId bidder (num a) st =
            Some (Failure BID_TOO_LOW (num c), st') \<and> auctionItems st' = auctionItems st"
  using assms
  by (simp add: placeBid_eq evaluateBid_def getItemById_def js_le_def release_def)

theorem non_positive_amount_is_rejected_witness:
  "getItemById (JStr ''item-001'') (initial_store 0) = Some (createSampleItems 0 ! 0) \<and>
   currentBid (createSampleItems 0 ! 0) = num 50 \<and>
   gate_free (JStr ''item-001'') (initial_store 0) \<and>
   (\<exists>st'. placeBid (\<lambda>_. NaN) 1000 ''b1'' (JStr ''item-001'') (JStr ''ann'') (num (- 5))
            (initial_store 0) = Some (Failure BID_TOO_LOW (num 50), st') \<and>
          auctionItems st' = auctionItems (initial_store 0))"
proof -
  have a: "getItemById (JStr ''item-001'') (initial_store 0) = Some (createSampleItems 0 ! 0)"
    by (simp add: store_eval)
  have b: "currentBid (createSampleItems 0 ! 0) = num 50"
    by (simp add: createSampleItems_def)
  have c: "gate_free (JStr ''item-001'') (initial_store 0)"
    by (simp add: gate_free_def initial_store_def)
  have d: "1000 < auctionEndTime (createSampleItems 0 ! 0)"
    by (simp add: createSampleItems_def)
  from non_positive_amount_is_rejected[OF a b _ _ c d, of "- 5" "\<lambda>_. NaN" "''b1''" "JStr ''ann''"]
    a b c show ?thesis by simp
qed

section \<open>The views of an item\<close>

text \<open>
  \<open>getAllItems\<close> builds the public view of every item, in the order of the store; the
  view has the eight public fields and no bid history.
\<close>

theorem getAllItems_fields:
  "length (getAllItems st) = length (auctionItems st) \<and>
   map item_id (getAllItems st) = map item_id (auctionItems st) \<and>
   map title (getAllItems st) = map title (auctionItems st) \<and>
   map description (getAllItems st) = map description (auctionItems st) \<and>
   map imageUrl (getAllItems st) = map imageUrl (auctionItems st) \<and>
   map startingPrice (getAllItems st) = map startingPrice (auctionItems st) \<and>
   map currentBid (getAllItems st) = map currentBid (auctionItems st) \<and>
   map highestBidderId (getAllItems st) = map highestBidderId (auctionItems st) \<and>
   map auctionEndTime (getAllItems st) = map auctionEndTime (auctionItems st)"
  by (simp add: getAllItems_def comp_def)

lemma getItemById_is_stored_item:
  "getItemById itemId st = Some item \<Longrightarrow> item \<in> set (auctionItems st)"
  by (auto simp: getItemById_def dest: find_has_id)

text \<open>
  C6 (not met by the code). \<open>getItemById\<close> does not build the public view: it returns the
  stored item itself, bid history included. After one accepted bid on the first item, the
  result of \<open>getItemById\<close> for that item carries the record of the bid.
\<close>

theorem getItemById_returns_bidHistory:
  "map_option (\<lambda>(r, st). map_option bidHistory (getItemById (JStr ''item-001'') st))
     (placeBid S 1000 ''b1'' (JStr ''item-001'') (JStr ''ann'') (num 60) (initial_store 0)) =
   Some (Some [\<lparr>bid_id = ''b1'', bidderId = JStr ''ann'', amount = num 60, timestamp = 1000\<rparr>])"
  by (simp add: first_bid getItemById_def has_id_def strict_eq_def createSampleItems_def)

section \<open>The gate map\<close>

lemma run_gates:
  "\<forall>k. gate_free k st \<Longrightarrow>
   \<exists>st'. run S calls st = Some st' \<and>
         dom (itemLocks st') = ids_since_reset calls (dom (itemLocks st)) \<and>
         (\<forall>k. gate_free k st')"
proof (induction calls arbitrary: st)
  case Nil
  then show ?case by simp
next
  case (Cons c calls)
  show ?case
  proof (cases c)
    case (PlaceBid now uuid itemId bidder amt)
    from Cons.prems have "gate_free itemId st" by simp
    from placeBid_total[OF this] obtain r st1 where
      pb: "placeBid S now uuid itemId bidder amt st = Some (r, st1)" by blast
    from placeBid_itemLocks[OF pb] Cons.prems have
      free: "\<forall>k. gate_free k st1" and d: "dom (itemLocks st1) = insert itemId (dom (itemLocks st))"
      by (simp_all add: gate_free_def)
    from Cons.IH[OF free] d pb PlaceBid show ?thesis by simp
  next
    case (ResetItems now)
    have "\<forall>k. gate_free k (resetItems now st)" by (simp add: resetItems_def gate_free_def)
    from Cons.IH[OF this] ResetItems show ?thesis by (simp add: resetItems_def)
  qed
qed

text \<open>
  C9, as the code has it. A call of \<open>placeBid\<close> creates the gate of its identifier if there
  is none and acquires it before it looks the item up: the lookup and the decision, also
  the decision \<open>ITEM_NOT_FOUND\<close>, are made on the store in which that gate is held, and the
  gate is free again when the call returns. So after any sequence of calls the gate map
  has an entry for exactly the identifiers passed to \<open>placeBid\<close> since the store was
  loaded or last reset, whether or not they name an item; \<open>resetItems\<close> clears the map.
\<close>

theorem gate_entry_for_every_itemId:
  assumes "\<forall>k. gate_free k st"
  shows "(\<exists>held r st1.
            acquire itemId (getLockForItem itemId st) = Some held \<and>
            itemLocks held itemId = Some (Mutex True) \<and>
            auctionItems held = auctionItems st \<and>
            evaluateBid S now uuid itemId bidder amt held = (r, st1) \<and>
            placeBid S now uuid itemId bidder amt st = Some (r, release itemId st1) \<and>
            itemLocks (release itemId st1) = (itemLocks st)(itemId \<mapsto> Mutex False) \<and>
            (getItemById itemId st = None \<longrightarrow> r = Failure ITEM_NOT_FOUND JUndefined)) \<and>
         (\<exists>st'. run S calls st = Some st' \<and>
            dom (itemLocks st') = ids_since_reset calls (dom (itemLocks st)) \<and>
            (\<forall>k. gate_free k st')) \<and>
         itemLocks (resetItems now st) = Map.empty"
proof -
  from assms have free: "gate_free itemId st" by simp
  let ?held = "st\<lparr>itemLocks := (itemLocks st)(itemId \<mapsto> Mutex True)\<rparr>"
  obtain r st1 where ev: "evaluateBid S now uuid itemId bidder amt ?held = (r, st1)"
    by (cases "evaluateBid S now uuid itemId bidder amt ?held")
  from evaluateBid_itemLocks[of S now uuid itemId bidder amt ?held] ev
  have locks: "itemLocks (release itemId st1) = (itemLocks st)(itemId \<mapsto> Mutex False)"
    by (simp add: release_def)
  from ev have nf: "getItemById itemId st = None \<longrightarrow> r = Failure ITEM_NOT_FOUND JUndefined"
    by (auto simp: evaluateBid_def getItemById_def)
  have one: "\<exists>held r st1.
            acquire itemId (getLockForItem itemId st) = Some held \<and>
            itemLocks held itemId = Some (Mutex True) \<and>
            auctionItems held = auctionItems st \<and>
            evaluateBid S now uuid itemId bidder amt held = (r, st1) \<and>
            placeBid S now uuid itemId bidder amt st = Some (r, release itemId st1) \<and>
            itemLocks (release itemId st1) = (itemLocks st)(itemId \<mapsto> Mutex False) \<and>
            (getItemById itemId st = None \<longrightarrow> r = Failure ITEM_NOT_FOUND JUndefined)"
    using acquire_getLockForItem[OF free] ev locks nf
    by (intro exI[of _ ?held] exI[of _ r] exI[of _ st1]) (simp add: placeBid_eq[OF free])
  from one run_gates[OF assms] show ?thesis by (simp add: resetItems_def)
qed

theorem gate_entry_for_every_itemId_witness:
  "(\<forall>k. gate_free k (initial_store 0)) \<and>
   map_option (\<lambda>(r, st'). (r, itemLocks st' (JStr ''ghost'')))
     (placeBid (\<lambda>_. NaN) 1000 ''b1'' (JStr ''ghost'') (JStr ''ann'') (num 60) (initial_store 0)) =
     Some (Failure ITEM_NOT_FOUND JUndefined, Some (Mutex False)) \<and>
   map_option (\<lambda>st'. dom (itemLocks st'))
     (run (\<lambda>_. NaN)
        [PlaceBid 1000 ''b1'' (JStr ''ghost'') (JStr ''ann'') (num 60),
         PlaceBid 2000 ''b2'' (JStr ''item-001'') (JStr ''ann'') (num 60)] (initial_store 0)) =
     Some {JStr ''ghost'', JStr ''item-001''}"
proof -
  have free: "\<forall>k. gate_free k (initial_store 0)"
    by (simp add: gate_free_def initial_store_def)
  have nf: "getItemById (JStr ''ghost'') (initial_store 0) = None"
    by (simp add: store_eval)
  from gate_entry_for_every_itemId[OF free, where itemId = "JStr ''ghost''" and S = "\<lambda>_. NaN"
      and now = 1000 and uuid = "''b1''" and bidder = "JStr ''ann''" and amt = "num 60"
      and calls = "[PlaceBid 1000 ''b1'' (JStr ''ghost'') (JStr ''ann'') (num 60),
         PlaceBid 2000 ''b2'' (JStr ''item-001'') (JStr ''ann'') (num 60)]"] nf
  have "map_option (\<lambda>(r, st'). (r, itemLocks st' (JStr ''ghost'')))
     (placeBid (\<lambda>_. NaN) 1000 ''b1'' (JStr ''ghost'') (JStr ''ann'') (num 60) (initial_store 0)) =
     Some (Failure ITEM_NOT_FOUND JUndefined, Some (Mutex False))"
    and "map_option (\<lambda>st'. dom (itemLocks st'))
     (run (\<lambda>_. NaN)
        [PlaceBid 1000 ''b1'' (JStr ''ghost'') (JStr ''ann'') (num 60),
         PlaceBid 2000 ''b2'' (JStr ''item-001'') (JStr ''ann'') (num 60)] (initial_store 0)) =
     Some {JStr ''ghost'', JStr ''item-001''}"
    by (auto simp: initial_store_def)
  with free show ?thesis by blast
qed

text \<open>
  The entry is not permanent: after a call for an identifier that names no item the gate
  map has its entry, and after a following reset it has not.
\<close>

theorem gate_entry_cleared_by_reset:
  "map_option (\<lambda>st'. itemLocks st' (JStr ''ghost''))
     (run (\<lambda>_. NaN) [PlaceBid 1000 ''b1'' (JStr ''ghost'') (JStr ''ann'') (num 60)]
        (initial_store 0)) = Some (Some (Mutex False)) \<and>
   map_option (\<lambda>st'. itemLocks st' (JStr ''ghost''))
     (run (\<lambda>_. NaN) [PlaceBid 1000 ''b1'' (JStr ''ghost'') (JStr ''ann'') (num 60),
                      ResetItems 2000] (initial_store 0)) = Some None"
  by (simp add: store_eval resetItems_def)

section \<open>Requests with a missing or falsy field\<close>

text \<open>
  C10, as the code has it. A \<open>BID_PLACED\<close> request whose payload lacks \<open>itemId\<close>,
  \<open>bidderId\<close> or \<open>bidAmount\<close>, or has a falsy value there (an amount of 0 is one), never
  reaches \<open>placeBid\<close>: the handler emits nothing and leaves the store, gate map included,
  as it was. It answers \<open>{success: false, error: 'INVALID_DATA'}\<close> if the request came with
  an acknowledgement callback, and does not answer if it came with none.
\<close>

theorem falsy_field_gives_INVALID_DATA:
  assumes "\<not> ToBoolean itemId \<or> \<not> ToBoolean bidAmount \<or> \<not> ToBoolean bidder"
  shows "on_BID_PLACED S now uuid emitTime (Some (itemId, bidAmount, bidder)) cb st =
           Done (if cb then Some (ReplyFailure INVALID_DATA JUndefined) else None) [] st"
  using assms by (auto simp: on_BID_PLACED_def answer_def)

theorem falsy_field_gives_INVALID_DATA_witness:
  "\<not> ToBoolean (num 0) \<and>
   on_BID_PLACED (\<lambda>_. NaN) 1000 ''b1'' 1001 (Some (JStr ''item-001'', num 0, JStr ''ann''))
     True (initial_store 0) =
     Done (Some (ReplyFailure INVALID_DATA JUndefined)) [] (initial_store 0) \<and>
   on_BID_PLACED (\<lambda>_. NaN) 1000 ''b1'' 1001 (Some (JStr ''item-001'', JUndefined, JStr ''ann''))
     True (initial_store 0) =
     Done (Some (ReplyFailure INVALID_DATA JUndefined)) [] (initial_store 0) \<and>
   map_option fst
     (placeBid (\<lambda>_. NaN) 1000 ''b1'' (JStr ''item-001'') (JStr ''ann'') (num 0) (initial_store 0)) =
     Some (Failure BID_TOO_LOW (num 50))"
proof -
  have zero: "\<not> ToBoolean (num 0)" and undef: "\<not> ToBoolean JUndefined" by simp_all
  from zero have a: "\<not> ToBoolean (JStr ''item-001'') \<or> \<not> ToBoolean (num 0) \<or>
      \<not> ToBoolean (JStr ''ann'')" by blast
  from undef have b: "\<not> ToBoolean (JStr ''item-001'') \<or> \<not> ToBoolean JUndefined \<or>
      \<not> ToBoolean (JStr ''ann'')" by blast
  have direct: "map_option fst
     (placeBid (\<lambda>_. NaN) 1000 ''b1'' (JStr ''item-001'') (JStr ''ann'') (num 0) (initial_store 0)) =
     Some (Failure BID_TOO_LOW (num 50))"
    by (simp add: store_eval)
  from zero direct
    falsy_field_gives_INVALID_DATA[OF a, of "\<lambda>_. NaN" 1000 "''b1''" 1001 True "initial_store 0"]
    falsy_field_gives_INVALID_DATA[OF b, of "\<lambda>_. NaN" 1000 "''b1''" 1001 True "initial_store 0"]
  show ?thesis by simp
qed

text \<open>A request with an amount of 0 and no acknowledgement callback is not answered.\<close>

theorem falsy_field_without_callback_unanswered:
  "on_BID_PLACED (\<lambda>_. NaN) 1000 ''b1'' 1001 (Some (JStr ''item-001'', num 0, JStr ''ann''))
     False (initial_store 0) = Done None [] (initial_store 0)"
  by (simp add: on_BID_PLACED_def answer_def)

section \<open>The current bid along a sequence of bids\<close>

text \<open>
  C3 (not met by the code). Once NaN has been accepted as the current bid of an item, no
  amount is \<open><=\<close> it, so every later bid is accepted: here the current bid of the first
  item goes from its starting price 50 to NaN and then down to 10.
\<close>

theorem currentBid_decreases_after_NaN:
  "map_option (\<lambda>st. map currentBid (auctionItems st))
     (run S [PlaceBid 1000 ''b1'' (JStr ''item-001'') (JStr ''ann'') (JNum NaN)]
        (initial_store 0)) =
     Some [JNum NaN, num 120, num 200, num 500, num 300, num 400] \<and>
   map_option (\<lambda>st. map currentBid (auctionItems st))
     (run S [PlaceBid 1000 ''b1'' (JStr ''item-001'') (JStr ''ann'') (JNum NaN),
             PlaceBid 2000 ''b2'' (JStr ''item-001'') (JStr ''bob'') (num 10)]
        (initial_store 0)) =
     Some [num 10, num 120, num 200, num 500, num 300, num 400] \<and>
   map startingPrice (auctionItems (initial_store 0)) =
     [num 50, num 120, num 200, num 500, num 300, num 400]"
  by (simp add: store_eval)

section \<open>Bids of numeric amounts\<close>

lemma is_number_cases: "is_number v \<Longrightarrow> \<exists>n. v = JNum n \<and> n \<noteq> NaN"
  by (cases v rule: is_number.cases) auto

lemma js_le_refl: "is_number v \<Longrightarrow> js_le S v v"
  by (cases v rule: is_number.cases) (auto simp: js_le_def)

lemma js_le_trans:
  assumes "is_number a" "is_number b" "is_number c" "js_le S a b" "js_le S b c"
  shows "js_le S a c"
proof -
  from assms(1-3) obtain x y z where
    v: "a = JNum x" "b = JNum y" "c = JNum z" and n: "x \<noteq> NaN" "y \<noteq> NaN" "z \<noteq> NaN"
    by (auto dest!: is_number_cases)
  from assms(4,5) n show ?thesis unfolding v
    by (cases x; cases y; cases z) (simp_all add: js_le_def split: bool.splits if_splits)
qed

lemma not_js_le_imp:
  assumes "is_number a" "is_number b" "\<not> js_le S a b"
  shows "js_le S b a \<and> a \<noteq> b"
proof -
  from assms(1,2) obtain x y where v: "a = JNum x" "b = JNum y" and n: "x \<noteq> NaN" "y \<noteq> NaN"
    by (auto dest!: is_number_cases)
  from assms(3) n show ?thesis unfolding v
    by (cases x; cases y) (simp_all add: js_le_def split: bool.splits if_splits)
qed

lemma item_grown_refl: "is_number (currentBid a) \<Longrightarrow> item_grown S a a"
  by (simp add: item_grown_def js_le_refl)

lemma item_grown_trans:
  assumes "item_grown S a b" "item_grown S b c"
  shows "item_grown S a c"
proof -
  from assms have le: "js_le S (currentBid a) (currentBid c)"
    by (auto simp: item_grown_def intro: js_le_trans)
  from assms have lens: "length (bidHistory a) \<le> length (bidHistory b)"
    "length (bidHistory b) \<le> length (bidHistory c)"
    and tk: "take (length (bidHistory a)) (bidHistory b) = bidHistory a"
    "take (length (bidHistory b)) (bidHistory c) = bidHistory b"
    by (simp_all add: item_grown_def)
  have "take (length (bidHistory a)) (bidHistory c) =
        take (length (bidHistory a)) (take (length (bidHistory b)) (bidHistory c))"
    using lens by (simp add: min_def)
  with tk have pre: "take (length (bidHistory a)) (bidHistory c) = bidHistory a" by simp
  from assms le pre lens show ?thesis
    by (auto simp: item_grown_def split: if_splits)
qed


lemma accepted_item_consistent:
  assumes "item_consistent S item" and "is_number amt" and "bidder \<noteq> JNull"
    and "\<not> js_le S amt (currentBid item)"
  shows "item_consistent S
           (item\<lparr>currentBid := amt, highestBidderId := bidder,
                 bidHistory := bidHistory item @
                   [\<lparr>bid_id = uuid, bidderId = bidder, amount = amt, timestamp = now\<rparr>]\<rparr>) \<and>
         item_grown S item
           (item\<lparr>currentBid := amt, highestBidderId := bidder,
                 bidHistory := bidHistory item @
                   [\<lparr>bid_id = uuid, bidderId = bidder, amount = amt, timestamp = now\<rparr>]\<rparr>)"
proof -
  from assms(1) have sp: "is_number (startingPrice item)" and cur: "is_number (currentBid item)"
    and le: "js_le S (startingPrice item) (currentBid item)"
    by (simp_all add: item_consistent_def)
  from not_js_le_imp[OF assms(2) cur assms(4)] have up: "js_le S (currentBid item) amt" by simp
  from js_le_trans[OF sp cur assms(2) le up] have le': "js_le S (startingPrice item) amt" .
  have "amt \<noteq> startingPrice item"
  proof
    assume "amt = startingPrice item"
    with le assms(4) show False by simp
  qed
  with sp assms(2,3) le' cur up show ?thesis
    by (simp add: item_consistent_def item_grown_def)
qed

lemma placeBid_keeps_consistent:
  assumes pb: "placeBid S now uuid itemId bidder amt st = Some (r, st')"
    and ok: "list_all (item_consistent S) (auctionItems st)"
    and amt: "is_number amt" and bidder: "bidder \<noteq> JNull"
  shows "list_all (item_consistent S) (auctionItems st') \<and>
         list_all2 (item_grown S) (auctionItems st) (auctionItems st')"
proof -
  from ok have same: "list_all2 (item_grown S) (auctionItems st) (auctionItems st)"
    by (auto simp: list_all2_same list_all_iff item_consistent_def intro: item_grown_refl)
  show ?thesis
  proof (cases r)
    case (Failure err cur)
    with pb have "auctionItems st' = auctionItems st" by (auto dest: placeBid_Failure_items)
    with ok same show ?thesis by simp
  next
    case (Success view prev)
    let ?new = "\<lambda>item::AuctionItem. item\<lparr>currentBid := amt, highestBidderId := bidder,
                 bidHistory := bidHistory item @
                   [\<lparr>bid_id = uuid, bidderId = bidder, amount = amt, timestamp = now\<rparr>]\<rparr>"
    from placeBid_Success_items[OF pb[unfolded Success]] obtain item where
      found: "find (has_id itemId) (auctionItems st) = Some item"
      and high: "\<not> js_le S amt (currentBid item)"
      and upd: "auctionItems st' =
                  update_found (has_id itemId) (\<lambda>_. ?new item) (auctionItems st)"
      by blast
    from update_found_split[OF found, of "\<lambda>_. ?new item"] upd obtain ys zs where
      before: "auctionItems st = ys @ item # zs" and after: "auctionItems st' = ys @ ?new item # zs"
      by auto
    from ok before have "item_consistent S item" by simp
    from accepted_item_consistent[OF this amt bidder high, of uuid now]
    have new: "item_consistent S (?new item)" and grown: "item_grown S item (?new item)"
      by simp_all
    from ok before new have c: "list_all (item_consistent S) (ys @ ?new item # zs)" by simp
    from same before have "list_all2 (item_grown S) ys ys" "list_all2 (item_grown S) zs zs"
      by (simp_all add: list_all2_same)
    with grown have "list_all2 (item_grown S) (ys @ item # zs) (ys @ ?new item # zs)"
      by (intro list_all2_appendI) simp_all
    with c before after show ?thesis by simp
  qed
qed

lemma createSampleItems_consistent: "list_all (item_consistent S) (createSampleItems now)"
  by (simp add: createSampleItems_def item_consistent_def js_le_def)

text \<open>
  Every sequence of bids of numeric amounts (no NaN) by bidders that are not \<open>null\<close>, run
  from a store with free gates and consistent items (the loaded store is one, and so is
  the store after a reset), runs to its end and leaves the items consistent; no current
  bid has decreased, every history has grown by appending only, and the current bid and
  highest bidder of an item changed only if a record was appended to its history.
\<close>

theorem numeric_bids_keep_items_consistent:
  assumes "\<forall>k. gate_free k st" and "list_all (item_consistent S) (auctionItems st)"
    and "list_all numeric_bid calls"
  shows "\<exists>st'. run S calls st = Some st' \<and>
           list_all (item_consistent S) (auctionItems st') \<and>
           list_all2 (item_grown S) (auctionItems st) (auctionItems st')"
  using assms
proof (induction calls arbitrary: st)
  case Nil
  then show ?case
    by (auto simp: list_all2_same list_all_iff item_consistent_def intro: item_grown_refl)
next
  case (Cons c calls)
  from Cons.prems(3) obtain now uuid itemId bidder amt where
    c: "c = PlaceBid now uuid itemId bidder amt" and amt: "is_number amt"
    and bidder: "bidder \<noteq> JNull" and rest: "list_all numeric_bid calls"
    by (cases c) auto
  from Cons.prems(1) have "gate_free itemId st" by simp
  from placeBid_total[OF this] obtain r st1 where
    pb: "placeBid S now uuid itemId bidder amt st = Some (r, st1)" by blast
  from placeBid_itemLocks[OF pb] Cons.prems(1) have free: "\<forall>k. gate_free k st1"
    by (simp add: gate_free_def)
  from placeBid_keeps_consistent[OF pb Cons.prems(2) amt bidder]
  have ok1: "list_all (item_consistent S) (auctionItems st1)"
    and g1: "list_all2 (item_grown S) (auctionItems st) (auctionItems st1)" by simp_all
  from Cons.IH[OF free ok1 rest] obtain st' where
    run: "run S calls st1 = Some st'" and ok': "list_all (item_consistent S) (auctionItems st')"
    and g2: "list_all2 (item_grown S) (auctionItems st1) (auctionItems st')" by blast
  from g1 g2 have "list_all2 (item_grown S) (auctionItems st) (auctionItems st')"
    by (rule list_all2_trans[rotated]) (rule item_grown_trans)
  with run ok' pb c show ?case by simp
qed

theorem numeric_bids_keep_items_consistent_witness:
  "(\<forall>k. gate_free k (initial_store 0)) \<and>
   list_all (item_consistent (\<lambda>_. NaN)) (auctionItems (initial_store 0)) \<and>
   list_all numeric_bid
     [PlaceBid 1000 ''b1'' (JStr ''item-001'') (JStr ''ann'') (num 60),
      PlaceBid 2000 ''b2'' (JStr ''item-001'') (JStr ''bob'') (num 55),
      PlaceBid 3000 ''b3'' (JStr ''item-001'') (JStr ''bob'') (num 70)] \<and>
   (\<exists>st'. run (\<lambda>_. NaN)
            [PlaceBid 1000 ''b1'' (JStr ''item-001'') (JStr ''ann'') (num 60),
             PlaceBid 2000 ''b2'' (JStr ''item-001'') (JStr ''bob'') (num 55),
             PlaceBid 3000 ''b3'' (JStr ''item-001'') (JStr ''bob'') (num 70)]
            (initial_store 0) = Some st' \<and>
          map currentBid (auctionItems st') =
            [num 70, num 120, num 200, num 500, num 300, num 400] \<and>
          list_all (item_consistent (\<lambda>_. NaN)) (auctionItems st') \<and>
          list_all2 (item_grown (\<lambda>_. NaN)) (auctionItems (initial_store 0)) (auctionItems st'))"
proof -
  let ?calls = "[PlaceBid 1000 ''b1'' (JStr ''item-001'') (JStr ''ann'') (num 60),
      PlaceBid 2000 ''b2'' (JStr ''item-001'') (JStr ''bob'') (num 55),
      PlaceBid 3000 ''b3'' (JStr ''item-001'') (JStr ''bob'') (num 70)]"
  have free: "\<forall>k. gate_free k (initial_store 0)"
    by (simp add: gate_free_def initial_store_def)
  have ok: "list_all (item_consistent (\<lambda>_. NaN)) (auctionItems (initial_store 0))"
    by (simp add: initial_store_def createSampleItems_consistent)
  have bids: "list_all numeric_bid ?calls" by simp
  from numeric_bids_keep_items_consistent[OF free ok bids] obtain st' where
    run: "run (\<lambda>_. NaN) ?calls (initial_store 0) = Some st'"
    and rest: "list_all (item_consistent (\<lambda>_. NaN)) (auctionItems st')"
      "list_all2 (item_grown (\<lambda>_. NaN)) (auctionItems (initial_store 0)) (auctionItems st')"
    by blast
  from run have cur: "map currentBid (auctionItems st') =
            [num 70, num 120, num 200, num 500, num 300, num 400]"
    by (auto simp: store_eval)
  show ?thesis
    by (intro conjI exI[of _ st']) (fact free ok bids run cur rest)+
qed

end
